theory Spec2Isabelle
  imports Complex_Main
begin

section \<open>Last.fm scrobbling: \<^verbatim>\<open>modules/lastfm.py\<close>\<close>

subsection \<open>Python string operations used by the cog\<close>

text \<open>\<^verbatim>\<open>s.endswith(suf)\<close> and \<^verbatim>\<open>s.startswith(pre)\<close>, both case sensitive.\<close>

definition endswith :: "string \<Rightarrow> string \<Rightarrow> bool" where
  "endswith s suf = (length suf \<le> length s \<and> drop (length s - length suf) s = suf)"

definition startswith :: "string \<Rightarrow> string \<Rightarrow> bool" where
  "startswith s pre = (take (length pre) s = pre)"

text \<open>\<^verbatim>\<open>s[:-8]\<close>: everything but the last eight characters, empty for a shorter string.\<close>

definition drop_last8 :: "string \<Rightarrow> string" where
  "drop_last8 s = take (length s - 8) s"

text \<open>
  \<^verbatim>\<open>a, b = s.split(sep, maxsplit=1)\<close>: the parts around the first occurrence of
  \<open>sep\<close>; \<open>None\<close> stands for the \<^verbatim>\<open>ValueError\<close> of unpacking a one-element list.
\<close>

fun split_once :: "string \<Rightarrow> string \<Rightarrow> (string \<times> string) option" where
  "split_once sep [] = None"
| "split_once sep (c # cs) =
     (if take (length sep) (c # cs) = sep then Some ([], drop (length sep) (c # cs))
      else map_option (\<lambda>(a, b). (c # a, b)) (split_once sep cs))"

text \<open>\<^verbatim>\<open>s.split(",")[0]\<close>.\<close>

definition before_comma :: "string \<Rightarrow> string" where
  "before_comma s = takeWhile (\<lambda>c. c \<noteq> CHR '','') s"

text \<open>Python truthiness of an optional string: \<^verbatim>\<open>None\<close> and \<^verbatim>\<open>""\<close> are false.\<close>

definition truthy :: "string option \<Rightarrow> bool" where
  "truthy s = (case s of None \<Rightarrow> False | Some v \<Rightarrow> v \<noteq> [])"

subsection \<open>Data\<close>

text \<open>
  The attributes of \<^verbatim>\<open>LavalinkTrack\<close> that \<^verbatim>\<open>startscrooble\<close> reads.
  \<open>duration\<close> is in milliseconds, \<open>source_name\<close> is \<^verbatim>\<open>track.info["sourceName"]\<close>.
\<close>

record track =
  uri :: string
  url :: string
  title :: string
  single_title :: string
  author :: string
  album_name :: "string option"
  ytid :: "string option"
  duration :: int
  is_stream :: bool
  source_name :: string
  autoplay :: bool
  requester :: nat

record uvoice =
  self_deaf :: bool
  deaf :: bool

record user =
  uid :: nat
  bot :: bool
  voice :: "uvoice option"

record channel =
  cid :: nat
  members :: "user list"

text \<open>Timestamps are microseconds (the resolution of \<^verbatim>\<open>datetime\<close>).\<close>

record player =
  current :: "track option"
  last_track :: "track option"
  last_channel :: "channel option"
  start_time :: int

text \<open>\<^verbatim>\<open>user_data["lastfm"]\<close>, also the entries of \<^verbatim>\<open>bot.pool.lastfm_sessions\<close>.\<close>

record fminfo =
  scrobble :: bool
  sessionkey :: string

text \<open>An entry of \<^verbatim>\<open>player.lastfm_users\<close>.\<close>

record mark =
  last_url :: string
  last_timestamp :: int

datatype kind = NowPlaying | Scrobble

text \<open>
  One request to the provider: the keyword arguments of \<^verbatim>\<open>update_nowplaying\<close> or
  \<^verbatim>\<open>track_scrobble\<close>. \<open>chosen_by_user\<close> is \<open>None\<close> when the key is not passed.
\<close>

record fmcall =
  ckind :: kind
  artist :: string
  track_name :: string
  album :: "string option"
  dur :: int
  session_key :: string
  chosen_by_user :: "bool option"

text \<open>What the provider call does: returns, raises \<^verbatim>\<open>LastFmException\<close> with a code, or
  raises something else.\<close>

datatype fmresp = Ok | LastFmException int | OtherException

text \<open>
  The mutable state the handlers touch: the session cache, the stored user data,
  the marks of the player, and the provider calls made so far (oldest first).
\<close>

record bot_state =
  lastfm_sessions :: "nat \<rightharpoonup> fminfo"
  users_db :: "nat \<Rightarrow> fminfo"
  lastfm_users :: "nat \<rightharpoonup> mark"
  calls :: "fmcall list"

text \<open>
  What the handler does not control: the clock (one reading per event), the bot's own
  voice state at its successive reads (\<^verbatim>\<open>player.guild.me.voice\<close>), and the provider's
  answer to the \<open>n\<close>-th call.
\<close>

record env =
  now :: int
  me_voice :: "nat \<Rightarrow> bool"
  provider :: "nat \<Rightarrow> fmcall \<Rightarrow> fmresp"

text \<open>The Python exceptions that the modelled code can raise.\<close>

datatype exc = AttributeError | KeyError | TypeError | GenericError | ClientResponseError

subsection \<open>\<^verbatim>\<open>startscrooble\<close>\<close>

text \<open>
  Lines 446-458: \<open>True\<close> when the handler goes on. The elapsed time is a
  \<^verbatim>\<open>timedelta\<close> in microseconds, \<^verbatim>\<open>total_seconds()\<close> divides it by \<open>10^6\<close>; the
  comparison is taken over the rationals.
\<close>

definition precheck :: "env \<Rightarrow> player \<Rightarrow> track \<Rightarrow> string option \<Rightarrow> bool \<Rightarrow> bool" where
  "precheck e p t reason update_np =
     (if is_stream t \<or> source_name t \<in> {''local'', ''http''} then False
      else if \<not> update_np then
        (if reason \<noteq> Some ''FINISHED'' then False
         else if duration t < 20000 then False
         else if (of_int (now e - start_time p) :: rat) / 1000000
                   < (of_int (duration t) * 0.75) / 1000 then False
         else True)
      else True)"

text \<open>
  Lines 460-466. \<open>counter\<close> is passed on as the loop leaves it; \<open>i\<close> counts the reads
  of the voice state, and the result is the index of the next read.
\<close>

partial_function (option) wait_voice :: "(nat \<Rightarrow> bool) \<Rightarrow> int \<Rightarrow> nat \<Rightarrow> nat option" where
  "wait_voice v counter i =
     (if counter > 0 then
        (if \<not> v i then wait_voice v counter (i + 1) else Some (i + 1))
      else Some i)"

text \<open>Lines 471-494: artist and track name, \<open>None\<close> for the early return.\<close>

definition names_of :: "track \<Rightarrow> (string \<times> string) option" where
  "names_of t =
     (if source_name t \<in> {''youtube'', ''soundcloud''} then
        (if \<not> truthy (album_name t) then None
         else
           (let (a, n) =
              (if truthy (ytid t) then
                 (if endswith (author t) '' - topic''
                     \<and> \<not> endswith (author t) ''Release - topic''
                     \<and> \<not> startswith (title t) (drop_last8 (author t))
                  then (drop_last8 (author t), title t)
                  else (case split_once '' - '' (title t) of
                          Some (a, n) \<Rightarrow> (a, n)
                        | None \<Rightarrow> (author t, title t)))
               else (author t, single_title t))
            in Some (before_comma a, n)))
      else Some (before_comma (author t), single_title t))"

text \<open>Line 496: \<^verbatim>\<open>int(track.duration / 1000)\<close> truncates towards zero.\<close>

definition duration_secs :: "track \<Rightarrow> int" where
  "duration_secs t =
     (if duration t \<ge> 0 then duration t div 1000 else - ((- duration t) div 1000))"

text \<open>Lines 498-499.\<close>

definition album_of :: "track \<Rightarrow> string option" where
  "album_of t =
     (if \<not> truthy (album_name t) \<and> \<not> autoplay t
         \<and> source_name t \<in> {''spotify'', ''deezer'', ''applemusic'', ''tidal''}
      then Some (single_title t) else album_name t)"

text \<open>Lines 523-532: the request built for one listener.\<close>

definition build_call :: "track \<Rightarrow> string \<Rightarrow> string \<Rightarrow> bool \<Rightarrow> user \<Rightarrow> fminfo \<Rightarrow> fmcall" where
  "build_call t a n update_np u fm =
     \<lparr> ckind = (if update_np then NowPlaying else Scrobble),
       artist = a, track_name = n, album = album_of t, dur = duration_secs t,
       session_key = sessionkey fm,
       chosen_by_user = (if \<not> update_np \<and> requester t \<noteq> uid u then Some False else None) \<rparr>"

text \<open>Lines 512-517: the session of a user, from the cache or loaded into it.\<close>

definition resolve_session :: "bot_state \<Rightarrow> nat \<Rightarrow> fminfo \<times> bot_state" where
  "resolve_session st i =
     (case lastfm_sessions st i of
        Some fm \<Rightarrow> (fm, st)
      | None \<Rightarrow> (users_db st i,
                 st\<lparr>lastfm_sessions := (lastfm_sessions st)(i \<mapsto> users_db st i)\<rparr>))"

text \<open>Lines 536-548: what a code 9 does to the state.\<close>

definition invalidate :: "nat \<Rightarrow> bot_state \<Rightarrow> bot_state" where
  "invalidate i st =
     st\<lparr>users_db := (users_db st)(i := (users_db st i)\<lparr>sessionkey := []\<rparr>),
        lastfm_sessions := (lastfm_sessions st)(i := None),
        lastfm_users := (lastfm_users st)(i := None)\<rparr>"

text \<open>Lines 552-555.\<close>

definition set_mark :: "env \<Rightarrow> track \<Rightarrow> nat \<Rightarrow> bot_state \<Rightarrow> bot_state" where
  "set_mark e t i st =
     st\<lparr>lastfm_users := (lastfm_users st)(i \<mapsto>
          \<lparr>last_url = url t, last_timestamp = now e + duration_secs t * 1000000\<rparr>)\<rparr>"

text \<open>Lines 503-555: the body of the loop over the listeners.\<close>

definition scrobble_user ::
  "env \<Rightarrow> track \<Rightarrow> string \<Rightarrow> string \<Rightarrow> bool \<Rightarrow> user \<Rightarrow> bot_state \<Rightarrow> bot_state" where
  "scrobble_user e t a n update_np u st =
     (if bot u then st
      else case voice u of
        None \<Rightarrow> st
      | Some vs \<Rightarrow>
         (if self_deaf vs \<or> deaf vs then st
          else
            (let (fm, st1) = resolve_session st (uid u) in
             if \<not> scrobble fm then st1
             else if sessionkey fm = [] then st1
             else
               (let c = build_call t a n update_np u fm;
                    st2 = st1\<lparr>calls := calls st1 @ [c]\<rparr>
                in case provider e (length (calls st1)) c of
                     Ok \<Rightarrow> set_mark e t (uid u) st2
                   | LastFmException code \<Rightarrow>
                       (if code = 9 then invalidate (uid u) st2 else st2)
                   | OtherException \<Rightarrow> st2))))"

fun scrobble_users ::
  "env \<Rightarrow> track \<Rightarrow> string \<Rightarrow> string \<Rightarrow> bool \<Rightarrow> user list \<Rightarrow> bot_state \<Rightarrow> bot_state" where
  "scrobble_users e t a n update_np [] st = st"
| "scrobble_users e t a n update_np (u # us) st =
     scrobble_users e t a n update_np us (scrobble_user e t a n update_np u st)"

text \<open>
  Line 501: \<^verbatim>\<open>users or player.last_channel.members\<close>; without a channel the attribute
  access raises.
\<close>

definition roster :: "player \<Rightarrow> user list option \<Rightarrow> exc + user list" where
  "roster p users =
     (case users of
        Some (u # us) \<Rightarrow> Inr (u # us)
      | _ \<Rightarrow> (case last_channel p of None \<Rightarrow> Inl AttributeError
               | Some ch \<Rightarrow> Inr (members ch)))"

text \<open>
  The handler of \<^verbatim>\<open>on_wavelink_track_end\<close>, also called for now-playing updates and
  from the voice-state handler. \<open>None\<close>: the handler never returns.
\<close>

definition startscrooble ::
  "env \<Rightarrow> bot_state \<Rightarrow> player \<Rightarrow> track option \<Rightarrow> string option \<Rightarrow> bool
     \<Rightarrow> user list option \<Rightarrow> (exc + bot_state) option" where
  "startscrooble e st p trk reason update_np users =
     (case trk of
        None \<Rightarrow> Some (Inr st)
      | Some t \<Rightarrow>
         (if \<not> precheck e p t reason update_np then Some (Inr st)
          else
            (case wait_voice (me_voice e) 3 0 of
               None \<Rightarrow> None
             | Some i \<Rightarrow>
                (if \<not> me_voice e i then Some (Inr st)
                 else
                   (case names_of t of
                      None \<Rightarrow> Some (Inr st)
                    | Some (a, n) \<Rightarrow>
                       (case roster p users of
                          Inl x \<Rightarrow> Some (Inl x)
                        | Inr us \<Rightarrow>
                            Some (Inr (scrobble_users e t a n update_np us st))))))))"

text \<open>\<^verbatim>\<open>update_np\<close>, the handler of \<^verbatim>\<open>on_wavelink_track_start\<close>.\<close>

definition update_np_handler :: "env \<Rightarrow> bot_state \<Rightarrow> player \<Rightarrow> (exc + bot_state) option" where
  "update_np_handler e st p = startscrooble e st p (last_track p) None True None"

subsection \<open>\<^verbatim>\<open>connect_vc_update\<close>\<close>

text \<open>
  Lines 412-435: \<open>True\<close> when the handler reaches the call of \<^verbatim>\<open>startscrooble\<close>.
  \<open>pl\<close> is the lookup of the guild's player (\<open>None\<close> for the \<^verbatim>\<open>KeyError\<close>); channels
  and members are compared by id.
\<close>

definition vc_guard ::
  "env \<Rightarrow> bot_state \<Rightarrow> user \<Rightarrow> channel option \<Rightarrow> channel option \<Rightarrow> player option \<Rightarrow> bool" where
  "vc_guard e st m before after pl =
     (if bot m \<or> after = None \<or> map_option cid before = map_option cid after then False
      else case pl of
        None \<Rightarrow> False
      | Some p \<Rightarrow>
         (if map_option cid (last_channel p) \<noteq> map_option cid after then False
          else case last_channel p of
            None \<Rightarrow> False
          | Some ch \<Rightarrow>
             (case current p of
                None \<Rightarrow> False
              | Some cur \<Rightarrow>
                 (if uid m \<in> set (map uid (members ch)) then
                    (case lastfm_users st (uid m) of
                       None \<Rightarrow> True
                     | Some mk \<Rightarrow>
                        (if last_url mk = uri cur \<and> now e < last_timestamp mk then False
                         else True))
                  else False))))"

definition connect_vc_update ::
  "env \<Rightarrow> bot_state \<Rightarrow> user \<Rightarrow> channel option \<Rightarrow> channel option \<Rightarrow> player option
     \<Rightarrow> (exc + bot_state) option" where
  "connect_vc_update e st m before after pl =
     (if vc_guard e st m before after pl then
        (case pl of
           None \<Rightarrow> Some (Inr st)
         | Some p \<Rightarrow> startscrooble e st p (last_track p) None False (Some [m]))
      else Some (Inr st))"

section \<open>Spotify client: \<^verbatim>\<open>utils/music/audio_sources/spotify.py\<close>\<close>

subsection \<open>Data\<close>

text \<open>
  The JSON values the client reads, and a JSON object as a finite map. Seconds and
  milliseconds are integers here (\<^verbatim>\<open>time.time()\<close> is a float in Python).
\<close>

datatype jval = JStr string | JNum int

type_synonym jdict = "string \<rightharpoonup> jval"

text \<open>Python truthiness of \<^verbatim>\<open>d.get(k)\<close>.\<close>

definition jtruthy :: "jval option \<Rightarrow> bool" where
  "jtruthy v = (case v of None \<Rightarrow> False | Some (JStr s) \<Rightarrow> s \<noteq> [] | Some (JNum i) \<Rightarrow> i \<noteq> 0)"

text \<open>
  The fields of \<^verbatim>\<open>SpotifyClient\<close> (\<open>ctype\<close> is \<^verbatim>\<open>self.type\<close>), the cache file on disk,
  and counters of the token requests and API requests sent so far.
\<close>

record client =
  client_id :: "string option"
  client_secret :: "string option"
  spotify_cache :: jdict
  disabled :: bool
  ctype :: string
  cache_file :: "jdict option"
  token_requests :: nat
  api_requests :: nat

text \<open>
  The network and the clock: \<open>clock\<close> is \<^verbatim>\<open>time.time()\<close> during the call, the replies
  of the two token endpoints are indexed by the number of token requests sent before,
  \<open>status\<close> and \<open>body\<close> are the answer to the \<open>k\<close>-th API request.
\<close>

record net =
  clock :: int
  visitor_reply :: "nat \<Rightarrow> jdict"
  api_reply :: "nat \<Rightarrow> jdict"
  status :: "nat \<Rightarrow> string \<Rightarrow> nat"
  body :: "nat \<Rightarrow> string \<Rightarrow> jdict"

datatype 'a result = Return 'a | Raise exc

subsection \<open>Token cache\<close>

text \<open>\<^verbatim>\<open>client_id and client_secret\<close>.\<close>

definition has_credentials :: "client \<Rightarrow> bool" where
  "has_credentials c = (truthy (client_id c) \<and> truthy (client_secret c))"

text \<open>\<^verbatim>\<open>__init__\<close>, given the content of the cache file if there is one.\<close>

definition init :: "string option \<Rightarrow> string option \<Rightarrow> jdict option \<Rightarrow> client" where
  "init ident secret file =
     \<lparr> client_id = ident, client_secret = secret,
       spotify_cache = (case file of None \<Rightarrow> Map.empty | Some d \<Rightarrow> d),
       disabled = False,
       ctype = (if truthy ident \<and> truthy secret then ''api'' else ''visitor''),
       cache_file = file, token_requests = 0, api_requests = 0 \<rparr>"

text \<open>Lines 152-153: the cache is written to the file.\<close>

definition write_cache :: "client \<Rightarrow> client" where
  "write_cache c = c\<lparr>cache_file := Some (spotify_cache c)\<rparr>"

text \<open>Lines 107-118 and 152-153: the anonymous token.\<close>

definition visitor_token :: "net \<Rightarrow> client \<Rightarrow> unit result \<times> client" where
  "visitor_token n c =
     (let d = visitor_reply n (token_requests c);
          c1 = c\<lparr>token_requests := token_requests c + 1\<rparr>
      in case d ''accessToken'' of
           None \<Rightarrow> (Raise KeyError, c1)
         | Some tok \<Rightarrow>
            (case d ''accessTokenExpirationTimestampMs'' of
               None \<Rightarrow> (Raise KeyError, c1)
             | Some (JStr s) \<Rightarrow> (Raise TypeError, c1)
             | Some (JNum ms) \<Rightarrow>
                (Return (),
                 write_cache (c1\<lparr>spotify_cache :=
                    [''access_token'' \<mapsto> tok, ''expires_in'' \<mapsto> JNum ms,
                     ''expires_at'' \<mapsto> JNum (clock n + ms), ''type'' \<mapsto> JStr ''visitor''],
                    ctype := ''visitor''\<rparr>))))"

text \<open>
  \<^verbatim>\<open>get_access_token\<close>. With credentials the whole reply becomes the cache, the key
  \<^verbatim>\<open>tyoe\<close> is added to it as the source spells it, then \<^verbatim>\<open>expires_at\<close>. A reply with an
  error drops the credentials and takes the anonymous token.
\<close>

definition get_access_token :: "net \<Rightarrow> client \<Rightarrow> unit result \<times> client" where
  "get_access_token n c =
     (if \<not> has_credentials c then visitor_token n c
      else
        (let d = api_reply n (token_requests c);
             c1 = c\<lparr>token_requests := token_requests c + 1\<rparr>
         in if jtruthy (d ''error'') then
              (case d ''error_description'' of
                 None \<Rightarrow> (Raise KeyError, c1)
               | Some m \<Rightarrow> visitor_token n (c1\<lparr>client_id := None, client_secret := None\<rparr>))
            else
              (let c2 = c1\<lparr>spotify_cache := d(''tyoe'' \<mapsto> JStr ''api''), ctype := ''api''\<rparr>
               in case d ''expires_in'' of
                    None \<Rightarrow> (Raise KeyError, c2)
                  | Some (JStr s) \<Rightarrow> (Raise TypeError, c2)
                  | Some (JNum s) \<Rightarrow>
                     (Return (),
                      write_cache (c2\<lparr>spotify_cache :=
                         (spotify_cache c2)(''expires_at'' \<mapsto> JNum (clock n + s))\<rparr>)))))"

text \<open>\<^verbatim>\<open>get_valid_access_token\<close>: the subscript raises on a cache without the key.\<close>

definition get_valid_access_token :: "net \<Rightarrow> client \<Rightarrow> jval result \<times> client" where
  "get_valid_access_token n c =
     (case spotify_cache c ''expires_at'' of
        None \<Rightarrow> (Raise KeyError, c)
      | Some (JStr s) \<Rightarrow> (Raise TypeError, c)
      | Some (JNum ea) \<Rightarrow>
         (case (if ea \<le> clock n \<or> spotify_cache c ''type'' \<noteq> Some (JStr (ctype c))
                then get_access_token n c else (Return (), c)) of
            (Raise x, c1) \<Rightarrow> (Raise x, c1)
          | (Return u, c1) \<Rightarrow>
             (case spotify_cache c1 ''access_token'' of
                None \<Rightarrow> (Raise KeyError, c1)
              | Some tok \<Rightarrow> (Return tok, c1))))"

subsection \<open>Request wrapper\<close>


section \<open>Observations on results and states\<close>

text \<open>The calls a handler has made when it returns.\<close>

definition calls_made :: "(exc + bot_state) option \<Rightarrow> fmcall list" where
  "calls_made r = (case r of Some (Inr s) \<Rightarrow> calls s | _ \<Rightarrow> [])"



section \<open>Sample values\<close>

subsection \<open>Sample values for the scrobbling handlers\<close>

definition ex_track :: track where
  "ex_track = \<lparr> uri = ''https://youtu.be/x1'', url = ''https://youtu.be/x1'',
     title = ''Song Title'', single_title = ''Song Title'', author = ''Artist - Topic'',
     album_name = Some ''Album'', ytid = Some ''x1'', duration = 200000, is_stream = False,
     source_name = ''youtube'', autoplay = False, requester = 1 \<rparr>"

definition ex_short :: track where
  "ex_short = ex_track\<lparr>duration := 10000\<rparr>"

definition ex_user :: user where
  "ex_user = \<lparr> uid = 1, bot = False, voice = Some \<lparr>self_deaf = False, deaf = False\<rparr> \<rparr>"

definition ex_other :: user where
  "ex_other = \<lparr> uid = 2, bot = False, voice = Some \<lparr>self_deaf = False, deaf = False\<rparr> \<rparr>"

definition ex_channel :: channel where
  "ex_channel = \<lparr> cid = 7, members = [ex_user] \<rparr>"

definition ex_player :: player where
  "ex_player = \<lparr> current = Some ex_track, last_track = Some ex_track,
     last_channel = Some ex_channel, start_time = 0 \<rparr>"

definition ex_state :: bot_state where
  "ex_state = \<lparr> lastfm_sessions = Map.empty,
     users_db = (\<lambda>i. \<lparr>scrobble = True, sessionkey = ''key''\<rparr>),
     lastfm_users = Map.empty, calls = [] \<rparr>"

text \<open>The bot is connected, the provider accepts every call; the clock reads 180 s.\<close>

definition ex_env :: env where
  "ex_env = \<lparr> now = 180000000, me_voice = (\<lambda>i. True), provider = (\<lambda>i c. Ok) \<rparr>"

text \<open>The request for \<open>ex_track\<close> on behalf of \<open>ex_user\<close>, who also requested it.\<close>

definition ex_call :: "kind \<Rightarrow> fmcall" where
  "ex_call k = \<lparr> ckind = k, artist = ''Artist - Topic'', track_name = ''Song Title'',
     album = Some ''Album'', dur = 200, session_key = ''key'', chosen_by_user = None \<rparr>"

text \<open>The state once \<open>ex_user\<close> has been scrobbled for \<open>ex_track\<close> at 200 s.\<close>

definition ex_marked :: bot_state where
  "ex_marked = \<lparr> lastfm_sessions = [1 \<mapsto> \<lparr>scrobble = True, sessionkey = ''key''\<rparr>],
     users_db = (\<lambda>i. \<lparr>scrobble = True, sessionkey = ''key''\<rparr>),
     lastfm_users = [1 \<mapsto> \<lparr>last_url = ''https://youtu.be/x1'', last_timestamp = 400000000\<rparr>],
     calls = [ex_call Scrobble] \<rparr>"

text \<open>A provider that rejects the second call with code 9 and accepts the others.\<close>

definition ex_env9 :: env where
  "ex_env9 = ex_env\<lparr>provider := (\<lambda>i c. if i = 1 then LastFmException 9 else Ok)\<rparr>"

subsection \<open>Sample values for the Spotify client\<close>

definition ex_visitor_reply :: jdict where
  "ex_visitor_reply = [''accessToken'' \<mapsto> JStr ''vtok'',
     ''accessTokenExpirationTimestampMs'' \<mapsto> JNum 1700003600000]"

definition ex_api_reply :: jdict where
  "ex_api_reply = [''access_token'' \<mapsto> JStr ''atok'', ''token_type'' \<mapsto> JStr ''Bearer'',
     ''expires_in'' \<mapsto> JNum 3600]"

text \<open>A network on which every API request is answered with 200.\<close>

definition ex_net :: net where
  "ex_net = \<lparr> clock = 1700000000, visitor_reply = (\<lambda>i. ex_visitor_reply),
     api_reply = (\<lambda>i. ex_api_reply), status = (\<lambda>k p. 200), body = (\<lambda>k p. Map.empty) \<rparr>"

text \<open>The first two API requests are answered with 401, the later ones with 200.\<close>

definition ex_net401 :: net where
  "ex_net401 = ex_net\<lparr>status := (\<lambda>k p. if k < 2 then 401 else 200)\<rparr>"

text \<open>The first API request is answered with 429.\<close>

definition ex_net429 :: net where
  "ex_net429 = ex_net\<lparr>status := (\<lambda>k p. if k = 0 then 429 else 200)\<rparr>"

text \<open>A client with credentials and a client without, both started without a cache file.\<close>

definition ex_api_client :: client where
  "ex_api_client = init (Some ''id'') (Some ''secret'') None"

definition ex_visitor_client :: client where
  "ex_visitor_client = init None None None"

text \<open>The client without credentials once it has fetched its token.\<close>

definition ex_ready :: client where
  "ex_ready = \<lparr> client_id = None, client_secret = None,
     spotify_cache = [''access_token'' \<mapsto> JStr ''vtok'',
       ''expires_in'' \<mapsto> JNum 1700003600000, ''expires_at'' \<mapsto> JNum 1701703600000,
       ''type'' \<mapsto> JStr ''visitor''],
     disabled = False, ctype = ''visitor'',
     cache_file = Some [''access_token'' \<mapsto> JStr ''vtok'',
       ''expires_in'' \<mapsto> JNum 1700003600000, ''expires_at'' \<mapsto> JNum 1701703600000,
       ''type'' \<mapsto> JStr ''visitor''],
     token_requests = 1, api_requests = 0 \<rparr>"

text \<open>The same client once an API request has been answered with 429.\<close>

definition ex_disabled :: client where
  "ex_disabled = ex_ready\<lparr>api_requests := 1, disabled := True\<rparr>"

text \<open>The client with credentials once it has fetched its token.\<close>

definition ex_api_ready :: client where
  "ex_api_ready = \<lparr> client_id = Some ''id'', client_secret = Some ''secret'',
     spotify_cache = ex_api_reply(''tyoe'' \<mapsto> JStr ''api'',
       ''expires_at'' \<mapsto> JNum 1700003600),
     disabled = False, ctype = ''api'',
     cache_file = Some (ex_api_reply(''tyoe'' \<mapsto> JStr ''api'',
       ''expires_at'' \<mapsto> JNum 1700003600)),
     token_requests = 1, api_requests = 0 \<rparr>"

section \<open>Properties of the scrobbling handlers\<close>

lemma wait_voice_returns_D:
  assumes "wait_voice v counter i = Some y"
  shows "counter \<le> 0 \<or> (\<exists>j\<ge>i. v j)"
proof (rule wait_voice.raw_induct
    [where P = "\<lambda>v counter i y. counter \<le> 0 \<or> (\<exists>j\<ge>i. v j)", OF _ assms])
  fix wv :: "(nat \<Rightarrow> bool) \<Rightarrow> int \<Rightarrow> nat \<Rightarrow> nat option" and v counter i r
  assume ih: "\<And>v counter i y. wv v counter i = Some y \<Longrightarrow> counter \<le> 0 \<or> (\<exists>j\<ge>i. v j)"
    and body: "(if 0 < counter then if \<not> v i then wv v counter (i + 1) else Some (i + 1)
                else Some i) = Some r"
  show "counter \<le> 0 \<or> (\<exists>j\<ge>i. v j)"
  proof (cases "0 < counter")
    case False then show ?thesis by simp
  next
    case pos: True
    show ?thesis
    proof (cases "v i")
      case True then show ?thesis by auto
    next
      case False
      with pos body have "wv v counter (i + 1) = Some r" by simp
      from ih [OF this] pos obtain j where "i + 1 \<le> j" "v j" by auto
      then have "i \<le> j" by simp
      with \<open>v j\<close> show ?thesis by blast
    qed
  qed
qed

lemma wait_voice_stuck:
  "0 < counter \<Longrightarrow> \<forall>j. \<not> v j \<Longrightarrow> wait_voice v counter i = None"
  using wait_voice_returns_D [of v counter i] by (cases "wait_voice v counter i") auto

lemma wait_voice_ready: "0 < counter \<Longrightarrow> v i \<Longrightarrow> wait_voice v counter i = Some (i + 1)"
  by (subst wait_voice.simps) simp

lemma elapsed_threshold:
  "((of_int x :: rat) / 1000000 < (of_int d * 0.75) / 1000) = (x < 750 * d)"
proof -
  have "((of_int x :: rat) / 1000000 < (of_int d * 0.75) / 1000)
      = ((of_int x :: rat) < of_int (750 * d))"
    by (simp add: field_simps)
  also have "\<dots> = (x < 750 * d)" by (rule of_int_less_iff)
  finally show ?thesis .
qed

lemma startscrooble_skip:
  "\<not> precheck e p t reason np \<Longrightarrow> startscrooble e st p (Some t) reason np users = Some (Inr st)"
  by (simp add: startscrooble_def)

lemma startscrooble_go:
  assumes "precheck e p t reason np" "me_voice e 0" "me_voice e 1"
    "names_of t = Some (a, n)" "roster p users = Inr us"
  shows "startscrooble e st p (Some t) reason np users
           = Some (Inr (scrobble_users e t a n np us st))"
  using assms by (simp add: startscrooble_def wait_voice_ready)

lemma precheck_ex: "precheck ex_env ex_player ex_track (Some ''FINISHED'') False"
  by (simp add: precheck_def ex_env_def ex_player_def ex_track_def)

lemma names_ex: "names_of ex_track = Some (''Artist - Topic'', ''Song Title'')"
  by (simp add: names_of_def ex_track_def truthy_def endswith_def startswith_def
      drop_last8_def before_comma_def)

text \<open>
  C3: the wait for the bot's own voice connection is meant to be bounded (\<open>counter = 3\<close>),
  but the counter is never decremented: while the connection stays absent the loop does
  not end, and the handler never returns.
\<close>

theorem poll_never_returns:
  "wait_voice (\<lambda>i. False) 3 0 = None
   \<and> startscrooble (ex_env\<lparr>me_voice := (\<lambda>i. False)\<rparr>) ex_state ex_player (Some ex_track)
        (Some ''FINISHED'') False None = None"
proof -
  have w: "wait_voice (\<lambda>i. False) 3 0 = None" by (rule wait_voice_stuck) simp_all
  have "precheck (ex_env\<lparr>me_voice := (\<lambda>i. False)\<rparr>) ex_player ex_track (Some ''FINISHED'') False"
    by (simp add: precheck_def ex_env_def ex_player_def ex_track_def)
  with w show ?thesis by (simp add: startscrooble_def)
qed

text \<open>
  C10: the voice-state handler calls \<^verbatim>\<open>startscrooble\<close> with no reason and without
  \<^verbatim>\<open>update_np\<close>, which returns at the reason check: for every event the handler returns
  with the state as it was, so no provider call is made and no mark is created or changed.
\<close>

theorem vc_update_never_submits:
  "connect_vc_update e st m before after pl = Some (Inr st)"
proof -
  have "startscrooble e st p trk None False users = Some (Inr st)" for p trk users
    by (cases trk) (simp_all add: startscrooble_def precheck_def)
  then show ?thesis by (simp add: connect_vc_update_def split: option.split)
qed



lemmas ex_defs = ex_track_def ex_short_def ex_user_def ex_other_def ex_channel_def
  ex_player_def ex_state_def ex_env_def ex_call_def ex_marked_def ex_env9_def

lemmas step_defs = scrobble_user_def resolve_session_def build_call_def set_mark_def
  invalidate_def album_of_def duration_secs_def truthy_def

lemma roster_ex: "roster ex_player None = Inr [ex_user]"
  by (simp add: roster_def ex_player_def ex_channel_def)




text \<open>
  C5 as stated fails: the duration check sits under \<^verbatim>\<open>if not update_np\<close>, so a now-playing
  event submits a track of 10 s.
\<close>

theorem short_track_now_playing:
  "duration ex_short < 20000
   \<and> calls_made (update_np_handler ex_env ex_state (ex_player\<lparr>last_track := Some ex_short\<rparr>))
       = [(ex_call NowPlaying)\<lparr>dur := 10\<rparr>]"
proof -
  let ?p = "ex_player\<lparr>last_track := Some ex_short\<rparr>"
  have pc: "precheck ex_env ?p ex_short None True"
    by (simp add: precheck_def ex_short_def ex_track_def)
  have v: "me_voice ex_env 0" "me_voice ex_env 1" by (simp_all add: ex_env_def)
  have n: "names_of ex_short = Some (''Artist - Topic'', ''Song Title'')"
    by (simp add: names_of_def ex_short_def ex_track_def truthy_def endswith_def
        startswith_def drop_last8_def before_comma_def)
  have r: "roster ?p None = Inr [ex_user]"
    by (simp add: roster_def ex_player_def ex_channel_def)
  have "calls (scrobble_users ex_env ex_short ''Artist - Topic'' ''Song Title'' True [ex_user] ex_state)
          = [(ex_call NowPlaying)\<lparr>dur := 10\<rparr>]"
    by (simp add: step_defs ex_defs)
  with startscrooble_go [OF pc v n r] show ?thesis
    by (simp add: calls_made_def update_np_handler_def ex_player_def ex_short_def ex_track_def)
qed

text \<open>
  C5, amended: for a track-end event (\<^verbatim>\<open>update_np\<close> false) on a track shorter than
  20000 ms the handler returns with the state as it was, whatever the reason: no provider
  call is made.
\<close>

theorem short_track_end_skipped:
  "duration t < 20000 \<Longrightarrow> startscrooble e st p (Some t) reason False users = Some (Inr st)"
  by (rule startscrooble_skip) (simp add: precheck_def)

theorem short_track_end_skipped_witness:
  "duration ex_short < 20000
   \<and> startscrooble ex_env ex_state ex_player (Some ex_short) (Some ''FINISHED'') False None
       = Some (Inr ex_state)"
proof -
  have d: "duration ex_short < 20000" by (simp add: ex_short_def ex_track_def)
  from d short_track_end_skipped [OF d] show ?thesis by simp
qed





lemma scrobble_user_frame:
  assumes "uid u \<noteq> i"
  shows "lastfm_sessions (scrobble_user e t a n np u st) i = lastfm_sessions st i"
    and "users_db (scrobble_user e t a n np u st) i = users_db st i"
    and "lastfm_users (scrobble_user e t a n np u st) i = lastfm_users st i"
  using assms
  by (simp_all add: scrobble_user_def resolve_session_def set_mark_def invalidate_def Let_def
      split: option.split fmresp.split)

lemma scrobble_users_frame:
  assumes "i \<notin> uid ` set us"
  shows "lastfm_sessions (scrobble_users e t a n np us st) i = lastfm_sessions st i
       \<and> users_db (scrobble_users e t a n np us st) i = users_db st i
       \<and> lastfm_users (scrobble_users e t a n np us st) i = lastfm_users st i"
  using assms
proof (induction us arbitrary: st)
  case Nil
  show ?case by simp
next
  case (Cons v vs)
  then have ne: "uid v \<noteq> i" and rest: "i \<notin> uid ` set vs" by auto
  show ?case
    using Cons.IH [OF rest, of "scrobble_user e t a n np v st"] scrobble_user_frame [OF ne]
    by simp
qed

lemma resolve_session_calls: "resolve_session st i = (fm, st1) \<Longrightarrow> calls st1 = calls st"
  by (auto simp add: resolve_session_def split: option.splits)

lemma scrobble_user_code9:
  assumes "\<not> bot u" "voice u = Some vs" "\<not> self_deaf vs" "\<not> deaf vs"
    "resolve_session st (uid u) = (fm, st1)" "scrobble fm" "sessionkey fm \<noteq> []"
    "provider e (length (calls st1)) (build_call t a n np u fm) = LastFmException 9"
  shows "scrobble_user e t a n np u st
           = invalidate (uid u) (st1\<lparr>calls := calls st @ [build_call t a n np u fm]\<rparr>)"
  using assms resolve_session_calls [of st "uid u" fm st1] by (simp add: scrobble_user_def)

text \<open>
  C6: when the provider answers the submission of a listener \<open>u\<close> with code 9, exactly one
  call has been made for \<open>u\<close> (no retry), the loop goes on with the remaining listeners,
  and after the batch the stored session key of \<open>u\<close> is empty, \<open>u\<close> has no cached session
  and no mark. The remaining listeners are other users than \<open>u\<close>.
\<close>

theorem code9_invalidates_session:
  assumes "\<not> bot u" "voice u = Some vs" "\<not> self_deaf vs" "\<not> deaf vs"
    "resolve_session st (uid u) = (fm, st1)" "scrobble fm" "sessionkey fm \<noteq> []"
    "provider e (length (calls st1)) (build_call t a n np u fm) = LastFmException 9"
    "uid u \<notin> uid ` set us"
  shows "calls (scrobble_user e t a n np u st) = calls st @ [build_call t a n np u fm]
       \<and> scrobble_users e t a n np (u # us) st
           = scrobble_users e t a n np us
               (invalidate (uid u) (st1\<lparr>calls := calls st @ [build_call t a n np u fm]\<rparr>))
       \<and> sessionkey (users_db (scrobble_users e t a n np (u # us) st) (uid u)) = []
       \<and> lastfm_sessions (scrobble_users e t a n np (u # us) st) (uid u) = None
       \<and> lastfm_users (scrobble_users e t a n np (u # us) st) (uid u) = None"
proof -
  let ?st2 = "invalidate (uid u) (st1\<lparr>calls := calls st @ [build_call t a n np u fm]\<rparr>)"
  have step: "scrobble_user e t a n np u st = ?st2"
    using assms(1-8) by (rule scrobble_user_code9)
  have c: "calls ?st2 = calls st @ [build_call t a n np u fm]"
    by (simp add: invalidate_def)
  have k: "sessionkey (users_db ?st2 (uid u)) = []" "lastfm_sessions ?st2 (uid u) = None"
    "lastfm_users ?st2 (uid u) = None"
    by (simp_all add: invalidate_def)
  have batch: "scrobble_users e t a n np (u # us) st = scrobble_users e t a n np us ?st2"
    using step by simp
  from scrobble_users_frame [OF assms(9), of e t a n np ?st2] k
  have "sessionkey (users_db (scrobble_users e t a n np us ?st2) (uid u)) = []"
    "lastfm_sessions (scrobble_users e t a n np us ?st2) (uid u) = None"
    "lastfm_users (scrobble_users e t a n np us ?st2) (uid u) = None"
    by simp_all
  with step c batch show ?thesis by simp
qed

theorem code9_invalidates_session_witness:
  "calls (scrobble_user ex_env9 ex_track ''Artist - Topic'' ''Song Title'' False ex_user ex_marked)
     = [ex_call Scrobble, ex_call Scrobble]
   \<and> sessionkey (users_db (scrobble_users ex_env9 ex_track ''Artist - Topic'' ''Song Title'' False
        [ex_user, ex_other] ex_marked) 1) = []
   \<and> lastfm_sessions (scrobble_users ex_env9 ex_track ''Artist - Topic'' ''Song Title'' False
        [ex_user, ex_other] ex_marked) 1 = None
   \<and> lastfm_users (scrobble_users ex_env9 ex_track ''Artist - Topic'' ''Song Title'' False
        [ex_user, ex_other] ex_marked) 1 = None"
  using code9_invalidates_session [where u = ex_user
      and vs = "\<lparr>self_deaf = False, deaf = False\<rparr>" and st = ex_marked
      and fm = "\<lparr>scrobble = True, sessionkey = ''key''\<rparr>" and ?st1.0 = ex_marked
      and e = ex_env9 and t = ex_track and a = "''Artist - Topic''" and n = "''Song Title''"
      and np = False and us = "[ex_other]"]
  by (simp add: ex_defs step_defs)

text \<open>
  C9 as stated fails: the suffix test is case sensitive, so the uploader
  \<^verbatim>\<open>Artist - Topic\<close> is not recognised and, the title having no separator, the artist
  submitted is the uploader's name as it is.
\<close>

theorem topic_capital_not_stripped:
  "source_name ex_track = ''youtube'' \<and> author ex_track = ''Artist - Topic''
   \<and> single_title ex_track = ''Song Title'' \<and> duration ex_track = 200000
   \<and> now ex_env - start_time ex_player = 180000000
   \<and> precheck ex_env ex_player ex_track (Some ''FINISHED'') False
   \<and> names_of ex_track = Some (''Artist - Topic'', ''Song Title'')
   \<and> calls_made (startscrooble ex_env ex_state ex_player (Some ex_track) (Some ''FINISHED'')
        False None) = [ex_call Scrobble]"
proof -
  have v: "me_voice ex_env 0" "me_voice ex_env 1" by (simp_all add: ex_env_def)
  have "calls (scrobble_users ex_env ex_track ''Artist - Topic'' ''Song Title'' False [ex_user]
          ex_state) = [ex_call Scrobble]"
    by (simp add: step_defs ex_defs)
  with startscrooble_go [OF precheck_ex v names_ex roster_ex] precheck_ex names_ex
  show ?thesis by (simp add: calls_made_def ex_track_def ex_env_def ex_player_def)
qed

text \<open>
  C9, amended: for a YouTube track with a video id and an album name, uploader
  \<^verbatim>\<open>Artist - topic\<close> (the suffix in lower case, as the code tests it), title
  \<^verbatim>\<open>Song Title\<close> and 200000 ms, finished after 180 s, the track passes the checks and
  yields artist \<^verbatim>\<open>Artist\<close>, track name \<^verbatim>\<open>Song Title\<close> and a duration of 200 s.
\<close>

theorem topic_rule_scenario:
  assumes "source_name t = ''youtube''" "author t = ''Artist - topic''"
    "title t = ''Song Title''" "truthy (album_name t)" "truthy (ytid t)"
    "duration t = 200000" "\<not> is_stream t" "now e - start_time p = 180000000"
  shows "precheck e p t (Some ''FINISHED'') False
       \<and> names_of t = Some (''Artist'', ''Song Title'') \<and> duration_secs t = 200"
proof -
  have "precheck e p t (Some ''FINISHED'') False"
    using assms elapsed_threshold [of "now e - start_time p" "duration t"]
    by (simp only: precheck_def) simp
  moreover have "names_of t = Some (''Artist'', ''Song Title'')"
    using assms
    by (simp add: names_of_def endswith_def startswith_def drop_last8_def before_comma_def)
  moreover have "duration_secs t = 200"
    using assms by (simp add: duration_secs_def)
  ultimately show ?thesis by simp
qed

theorem topic_rule_scenario_witness:
  "precheck ex_env ex_player (ex_track\<lparr>author := ''Artist - topic''\<rparr>) (Some ''FINISHED'') False
   \<and> names_of (ex_track\<lparr>author := ''Artist - topic''\<rparr>) = Some (''Artist'', ''Song Title'')
   \<and> duration_secs (ex_track\<lparr>author := ''Artist - topic''\<rparr>) = 200"
  using topic_rule_scenario [of "ex_track\<lparr>author := ''Artist - topic''\<rparr>" ex_env ex_player]
  by (simp add: ex_track_def ex_env_def ex_player_def truthy_def)

section \<open>Properties of the Spotify client\<close>

lemmas sp_defs = ex_visitor_reply_def ex_api_reply_def ex_net_def ex_net401_def ex_net429_def
  ex_api_client_def ex_visitor_client_def ex_ready_def ex_api_ready_def ex_disabled_def init_def

lemmas token_defs = get_valid_access_token_def get_access_token_def visitor_token_def
  write_cache_def has_credentials_def truthy_def jtruthy_def Let_def

lemma ready_is_fetched: "get_access_token ex_net ex_visitor_client = (Return (), ex_ready)"
  by (simp add: sp_defs token_defs)

lemma unset_raises:
  "get_valid_access_token n (init ident secret None) = (Raise KeyError, init ident secret None)"
  by (simp add: get_valid_access_token_def init_def)

lemma api_refresh: "get_access_token ex_net ex_api_client = (Return (), ex_api_ready)"
  by (simp add: sp_defs token_defs)

lemma api_refresh_again:
  "get_valid_access_token ex_net ex_api_ready
     = (Return (JStr ''atok''), ex_api_ready\<lparr>token_requests := 2\<rparr>)"
  by (simp add: sp_defs token_defs)



















text \<open>
  C2: \<^verbatim>\<open>get_valid_access_token\<close> does not return a token in the initial state: with an
  empty cache the subscript \<^verbatim>\<open>["expires_at"]\<close> raises \<^verbatim>\<open>KeyError\<close>. And with credentials
  the refresh stores the mode under the key \<^verbatim>\<open>tyoe\<close>, so the cache never matches the
  configured mode: the call right after a successful refresh, before the expiry, sends
  another token request.
\<close>

theorem token_cache_defects:
  "get_valid_access_token n (init ident secret None) = (Raise KeyError, init ident secret None)
   \<and> get_access_token ex_net ex_api_client = (Return (), ex_api_ready)
   \<and> spotify_cache ex_api_ready ''expires_at'' = Some (JNum (clock ex_net + 3600))
   \<and> spotify_cache ex_api_ready ''type'' = None \<and> ctype ex_api_ready = ''api''
   \<and> get_valid_access_token ex_net ex_api_ready
       = (Return (JStr ''atok''), ex_api_ready\<lparr>token_requests := 2\<rparr>)"
  using unset_raises [of n ident secret] api_refresh api_refresh_again
  by (simp add: sp_defs)

end
